theory Spec2Isabelle
  imports Main
begin

section \<open>The connection service of react-native-stripe-terminal\<close>

text \<open>
  A shallow embedding of \<^verbatim>\<open>src/connectionService.js\<close>: the class \<^verbatim>\<open>STCS\<close> that
  \<^verbatim>\<open>createConnectionService(StripeTerminal, options)\<close> instantiates.

  \<^item> The instance (\<^verbatim>\<open>this\<close>) is a record; every method takes the world (the instance, the
    key-value store and the log of effects performed so far) and returns the new world.
  \<^item> Every call into the adapter \<^verbatim>\<open>StripeTerminal\<close>, every call into \<^verbatim>\<open>AsyncStorage\<close> and
    every \<^verbatim>\<open>emitter.emit\<close> is appended to the log, in program order.
  \<^item> What the adapter answers is a parameter: the device \<^verbatim>\<open>getConnectedReader\<close> resolves
    with, and how \<^verbatim>\<open>connectReader(id)\<close> settles (resolved with a device, or rejected with
    an error, the one rejection the source handles).
  \<^item> A method is followed to its end: its \<^verbatim>\<open>await\<close>s resolve, and the callbacks it hangs on
    the promise of \<^verbatim>\<open>connectReader\<close> run when that promise settles, with no other handler
    of the service in between.
\<close>

subsection \<open>JavaScript values\<close>

text \<open>
  A value that is a string, \<^verbatim>\<open>null\<close> or \<^verbatim>\<open>undefined\<close> is a \<open>string option\<close>. JavaScript's
  truthiness on such a value: \<^verbatim>\<open>null\<close>, \<^verbatim>\<open>undefined\<close> and the empty string are falsy.
\<close>

definition truthy :: "string option \<Rightarrow> bool" where
  "truthy v = (case v of None \<Rightarrow> False | Some s \<Rightarrow> s \<noteq> [])"

text \<open>\<^verbatim>\<open>a || b\<close> for a nullable string \<open>a\<close> and a string \<open>b\<close>.\<close>

definition or_else :: "string option \<Rightarrow> string \<Rightarrow> string" where
  "or_else a b = (case a of None \<Rightarrow> b | Some s \<Rightarrow> if s = [] then b else s)"

text \<open>\<^verbatim>\<open>Array.prototype.indexOf\<close> (strict equality), \<open>-1\<close> when the value is absent.\<close>

fun indexOf :: "'a list \<Rightarrow> 'a \<Rightarrow> int" where
  "indexOf [] x = -1"
| "indexOf (y # ys) x =
     (if y = x then 0 else (let i = indexOf ys x in if i = -1 then -1 else i + 1))"

text \<open>\<^verbatim>\<open>Array.prototype.join\<close> on strings.\<close>

fun join :: "string \<Rightarrow> string list \<Rightarrow> string" where
  "join sep [] = []"
| "join sep [x] = x"
| "join sep (x # y # ys) = x @ sep @ join sep (y # ys)"

definition dquote :: string where
  "dquote = [CHR 0x22]"

subsection \<open>Data\<close>

text \<open>A discovered or connected device; the service reads its \<^verbatim>\<open>serialNumber\<close> only.\<close>

record reader =
  serialNumber :: string

text \<open>The value a rejected promise or a \<^verbatim>\<open>throw\<close> carries: an \<^verbatim>\<open>Error\<close> with its message.\<close>

datatype error = Error string

text \<open>The second argument of \<^verbatim>\<open>emitter.emit(event, payload)\<close>.\<close>

datatype payload =
    PReaders "reader list"
  | PError error
  | PSerial "string option"
  | PText string

text \<open>The two subscriptions the constructor keeps in \<^verbatim>\<open>this.listeners\<close>.\<close>

datatype listener = ReadersDiscoveredListener | DidDisconnectUnexpectedlyFromReaderListener

text \<open>What the service does to the world outside it, one constructor per call.\<close>

datatype effect =
    AddReadersDiscoveredListener
  | AddDidDisconnectUnexpectedlyFromReaderListener
  | RemoveListener listener
  | AddListener string
  | GetConnectedReader
  | AbortDiscoverReaders
  | DisconnectReader
  | DiscoverReaders string string
  | ConnectReader string
  | GetItem string
  | SetItem string string
  | RemoveItem string
  | Emit string payload

text \<open>The static members of \<^verbatim>\<open>STCS\<close>.\<close>

definition StorageKey :: string where
  "StorageKey = ''@STCS:persistedSerialNumber''"

definition EventConnectionError :: string where
  "EventConnectionError = ''connectionError''"

definition EventPersistedReaderNotFound :: string where
  "EventPersistedReaderNotFound = ''persistedReaderNotFound''"

definition EventReadersDiscovered :: string where
  "EventReadersDiscovered = ''readersDiscovered''"

definition EventReaderPersisted :: string where
  "EventReaderPersisted = ''readerPersisted''"

definition EventLog :: string where
  "EventLog = ''log''"

definition PolicyAuto :: string where
  "PolicyAuto = ''auto''"

definition PolicyPersist :: string where
  "PolicyPersist = ''persist''"

definition PolicyManual :: string where
  "PolicyManual = ''manual''"

definition PolicyPersistManual :: string where
  "PolicyPersistManual = ''persist-manual''"

definition Policies :: "string list" where
  "Policies = [PolicyAuto, PolicyPersist, PolicyManual, PolicyPersistManual]"

definition DesiredReaderAny :: string where
  "DesiredReaderAny = ''any''"

text \<open>The fields of the instance. The emitter is seen through the \<open>Emit\<close> effects.\<close>

record stcs =
  policy :: string
  deviceType :: string
  discoveryMode :: string
  desiredReader :: "string option"
  listeners :: "listener list"

text \<open>The argument of the constructor: \<^verbatim>\<open>{ policy, deviceType, discoveryMode }\<close>.\<close>

record options =
  opt_policy :: string
  opt_deviceType :: "string option"
  opt_discoveryMode :: "string option"

text \<open>
  The adapter \<^verbatim>\<open>StripeTerminal\<close> as the service sees it: the two constants the
  constructor reads, the device \<^verbatim>\<open>getConnectedReader()\<close> resolves with (\<open>None\<close> for no
  device), and the way \<^verbatim>\<open>connectReader(id)\<close> settles (\<open>Inl\<close> rejected, \<open>Inr\<close> resolved).
\<close>

record adapter =
  DeviceTypeChipper2X :: string
  DiscoveryMethodBluetoothProximity :: string
  connectedReader :: "reader option"
  connectOutcome :: "string \<Rightarrow> error + reader"

text \<open>
  The world a method runs in: the instance, the content of \<^verbatim>\<open>AsyncStorage\<close> and the
  effects performed so far, oldest first.
\<close>

record world =
  svc :: stcs
  storage :: "string \<rightharpoonup> string"
  trace :: "effect list"

subsection \<open>Effects\<close>

definition perform :: "effect \<Rightarrow> world \<Rightarrow> world" where
  "perform e w = w\<lparr>trace := trace w @ [e]\<rparr>"

definition emit :: "string \<Rightarrow> payload \<Rightarrow> world \<Rightarrow> world" where
  "emit ev p w = perform (Emit ev p) w"

text \<open>
  Modelled from the spec: \<^verbatim>\<open>AsyncStorage\<close> (imported from react-native, not part of the
  source file) is the PersistentStore of the spec's section 6, a key-value store with
  \<^verbatim>\<open>getItem(key) -> string|none\<close>, \<^verbatim>\<open>setItem(key, value)\<close> and \<^verbatim>\<open>removeItem(key)\<close>.
\<close>

definition getItem :: "string \<Rightarrow> world \<Rightarrow> string option \<times> world" where
  "getItem k w = (storage w k, perform (GetItem k) w)"

definition setItem :: "string \<Rightarrow> string \<Rightarrow> world \<Rightarrow> world" where
  "setItem k v w = perform (SetItem k v) (w\<lparr>storage := (storage w)(k \<mapsto> v)\<rparr>)"

definition removeItem :: "string \<Rightarrow> world \<Rightarrow> world" where
  "removeItem k w = perform (RemoveItem k) (w\<lparr>storage := (storage w)(k := None)\<rparr>)"

definition set_desiredReader :: "string option \<Rightarrow> world \<Rightarrow> world" where
  "set_desiredReader d w = w\<lparr>svc := (svc w)\<lparr>desiredReader := d\<rparr>\<rparr>"

subsection \<open>The methods\<close>

text \<open>
  \<^verbatim>\<open>constructor({ policy, deviceType, discoveryMode })\<close>, lines 27 to 52. It returns the
  effects it performed together with the thrown error or the new instance.
\<close>

definition invalid_policy_message :: "string \<Rightarrow> string" where
  "invalid_policy_message p =
     ''Invalid policy passed to STCS: got '' @ dquote @ p @ dquote @ '', expects '' @
     dquote @ join ''|'' Policies @ dquote"

definition constructor :: "adapter \<Rightarrow> options \<Rightarrow> (error + stcs) \<times> effect list" where
  "constructor ST opts =
     (let p = opt_policy opts;
          dt = or_else (opt_deviceType opts) (DeviceTypeChipper2X ST);
          dm = or_else (opt_discoveryMode opts) (DiscoveryMethodBluetoothProximity ST)
      in if indexOf Policies p = -1
         then (Inl (Error (invalid_policy_message p)), [])
         else (Inr \<lparr>policy = p, deviceType = dt, discoveryMode = dm, desiredReader = None,
                    listeners = [ReadersDiscoveredListener,
                                 DidDisconnectUnexpectedlyFromReaderListener]\<rparr>,
               [AddReadersDiscoveredListener,
                AddDidDisconnectUnexpectedlyFromReaderListener]))"

text \<open>
  \<^verbatim>\<open>addListener(event, handler)\<close>, lines 177 to 179. The handler is a function of the
  caller's and is not represented.
\<close>

definition addListener :: "string \<Rightarrow> world \<Rightarrow> world" where
  "addListener ev w = perform (AddListener ev) w"

text \<open>\<^verbatim>\<open>getPersistedReaderSerialNumber()\<close>, lines 181 to 184.\<close>

definition getPersistedReaderSerialNumber :: "world \<Rightarrow> string option \<times> world" where
  "getPersistedReaderSerialNumber w = getItem StorageKey w"

text \<open>
  \<^verbatim>\<open>setPersistedReaderSerialNumber(serialNumber)\<close>, lines 186 to 193:
  \<^verbatim>\<open>!serialNumber\<close> holds for \<^verbatim>\<open>null\<close>, \<^verbatim>\<open>undefined\<close> and the empty string.
\<close>

definition setPersistedReaderSerialNumber :: "string option \<Rightarrow> world \<Rightarrow> world" where
  "setPersistedReaderSerialNumber serial w =
     (let w1 = (case serial of
                  None \<Rightarrow> removeItem StorageKey w
                | Some s \<Rightarrow> if s = [] then removeItem StorageKey w
                            else setItem StorageKey s w)
      in emit EventReaderPersisted (PSerial serial) w1)"

text \<open>\<^verbatim>\<open>getReader()\<close>, lines 170 to 175.\<close>

definition getReader :: "adapter \<Rightarrow> world \<Rightarrow> reader option \<times> world" where
  "getReader ST w =
     (let w1 = perform GetConnectedReader w
      in (case connectedReader ST of
            None \<Rightarrow> None
          | Some r \<Rightarrow> if Some (serialNumber r) = desiredReader (svc w1) then Some r else None,
          w1))"

text \<open>\<^verbatim>\<open>connect(serialNumber)\<close>, lines 123 to 149.\<close>

definition connecting_message :: "string option \<Rightarrow> string" where
  "connecting_message serial =
     ''Connecting to reader: '' @ dquote @ or_else serial ''any'' @ dquote @ ''...''"

definition connect :: "adapter \<Rightarrow> string option \<Rightarrow> world \<Rightarrow> world" where
  "connect ST serial w =
     (let w1 = emit EventLog (PText (connecting_message serial)) w;
          w2 = (if truthy serial then set_desiredReader serial w1 else w1);
          w3 = (if \<not> truthy (desiredReader (svc w2))
                then set_desiredReader (Some DesiredReaderAny) w2 else w2);
          (currentReader, w4) = getReader ST w3
      in case currentReader of
           Some r \<Rightarrow> w4
         | None \<Rightarrow>
             perform (DiscoverReaders (deviceType (svc w4)) (discoveryMode (svc w4)))
               (perform DisconnectReader (perform AbortDiscoverReaders w4)))"

text \<open>\<^verbatim>\<open>discover()\<close>, lines 151 to 157.\<close>

definition discover :: "world \<Rightarrow> world" where
  "discover w =
     perform (DiscoverReaders (deviceType (svc w)) (discoveryMode (svc w)))
       (perform AbortDiscoverReaders w)"

text \<open>\<^verbatim>\<open>disconnect()\<close>, lines 159 to 168.\<close>

definition disconnect :: "world \<Rightarrow> world" where
  "disconnect w =
     (let w1 = (if policy (svc w) = PolicyPersist \<or> policy (svc w) = PolicyPersistManual
                then set_desiredReader None (setPersistedReaderSerialNumber None w)
                else w)
      in perform DisconnectReader w1)"

text \<open>
  \<^verbatim>\<open>onReadersDiscovered(readers)\<close>, lines 54 to 116, in three parts: the value of the
  local \<^verbatim>\<open>connectionPromise\<close> (the identifier handed to \<^verbatim>\<open>connectReader\<close>, \<open>None\<close> when
  the variable stays undefined), and the two callbacks hung on that promise.
\<close>

definition connectionPromise :: "stcs \<Rightarrow> reader list \<Rightarrow> string option" where
  "connectionPromise this readers =
     (case List.find (\<lambda>r. Some (serialNumber r) = desiredReader this) readers of
        Some foundReader \<Rightarrow> Some (serialNumber foundReader)
      | None \<Rightarrow>
          (case readers of
             [] \<Rightarrow> None
           | r0 # rest \<Rightarrow>
               if policy this = PolicyAuto \<or>
                  (policy this = PolicyPersist \<and> \<not> truthy (desiredReader this)) \<or>
                  desiredReader this = Some DesiredReaderAny
               then Some (serialNumber r0)
               else None))"

text \<open>The \<^verbatim>\<open>.then\<close> callback, lines 93 to 102.\<close>

definition on_connected :: "reader \<Rightarrow> world \<Rightarrow> world" where
  "on_connected r w =
     (let w1 = set_desiredReader (Some (serialNumber r)) w
      in if policy (svc w1) = PolicyPersist \<or> policy (svc w1) = PolicyPersistManual
         then setPersistedReaderSerialNumber (desiredReader (svc w1)) w1
         else w1)"

text \<open>The \<^verbatim>\<open>.catch\<close> callback, lines 103 to 109.\<close>

definition on_connect_failed :: "adapter \<Rightarrow> error \<Rightarrow> world \<Rightarrow> world" where
  "on_connect_failed ST e w =
     (let w1 = emit EventConnectionError (PError e) w
      in if policy (svc w1) \<noteq> PolicyManual then connect ST None w1 else w1)"

definition onReadersDiscovered :: "adapter \<Rightarrow> reader list \<Rightarrow> world \<Rightarrow> world" where
  "onReadersDiscovered ST readers w =
     (let w1 = emit EventReadersDiscovered (PReaders readers) w
      in if readers = [] then w1
         else if \<not> truthy (desiredReader (svc w1)) then w1
         else (case connectionPromise (svc w1) readers of
                 Some serial \<Rightarrow>
                   (let w2 = perform (ConnectReader serial) w1
                    in case connectOutcome ST serial of
                         Inr r \<Rightarrow> on_connected r w2
                       | Inl e \<Rightarrow> on_connect_failed ST e w2)
               | None \<Rightarrow>
                   connect ST None (emit EventPersistedReaderNotFound (PReaders readers) w1)))"

text \<open>\<^verbatim>\<open>onUnexpectedDisconnect()\<close>, lines 118 to 121.\<close>

definition onUnexpectedDisconnect :: "adapter \<Rightarrow> world \<Rightarrow> world" where
  "onUnexpectedDisconnect ST w = connect ST None w"

text \<open>\<^verbatim>\<open>start()\<close>, lines 195 to 209.\<close>

definition start :: "adapter \<Rightarrow> world \<Rightarrow> world" where
  "start ST w =
     (if policy (svc w) = PolicyAuto then connect ST None w
      else if policy (svc w) = PolicyPersist \<or> policy (svc w) = PolicyPersistManual
      then (let (serial, w1) = getPersistedReaderSerialNumber w
            in if policy (svc w1) = PolicyPersist \<or> truthy serial
               then connect ST serial w1
               else w1)
      else w)"

text \<open>\<^verbatim>\<open>stop()\<close>, lines 211 to 214.\<close>

definition stop :: "world \<Rightarrow> world" where
  "stop w =
     (let w1 = perform DisconnectReader w
      in fold (\<lambda>l. perform (RemoveListener l)) (listeners (svc w1)) w1)"

subsection \<open>The selection condition without its second disjunct\<close>

text \<open>
  \<^verbatim>\<open>onReadersDiscovered\<close> as in the source, but for the condition of lines 80 to 84,
  from which the disjunct \<^verbatim>\<open>(this.policy === STCS.PolicyPersist && !this.desiredReader)\<close>
  is removed. Everything else is the source's.
\<close>

definition connectionPromise_without_unset_disjunct :: "stcs \<Rightarrow> reader list \<Rightarrow> string option"
  where
  "connectionPromise_without_unset_disjunct this readers =
     (case List.find (\<lambda>r. Some (serialNumber r) = desiredReader this) readers of
        Some foundReader \<Rightarrow> Some (serialNumber foundReader)
      | None \<Rightarrow>
          (case readers of
             [] \<Rightarrow> None
           | r0 # rest \<Rightarrow>
               if policy this = PolicyAuto \<or> desiredReader this = Some DesiredReaderAny
               then Some (serialNumber r0)
               else None))"

definition onReadersDiscovered_without_unset_disjunct ::
  "adapter \<Rightarrow> reader list \<Rightarrow> world \<Rightarrow> world" where
  "onReadersDiscovered_without_unset_disjunct ST readers w =
     (let w1 = emit EventReadersDiscovered (PReaders readers) w
      in if readers = [] then w1
         else if \<not> truthy (desiredReader (svc w1)) then w1
         else (case connectionPromise_without_unset_disjunct (svc w1) readers of
                 Some serial \<Rightarrow>
                   (let w2 = perform (ConnectReader serial) w1
                    in case connectOutcome ST serial of
                         Inr r \<Rightarrow> on_connected r w2
                       | Inl e \<Rightarrow> on_connect_failed ST e w2)
               | None \<Rightarrow>
                   connect ST None (emit EventPersistedReaderNotFound (PReaders readers) w1)))"

subsection \<open>Runs of the service\<close>

text \<open>
  The entry points of an instance: the two handlers the constructor subscribes and the
  public methods. A run is a list of calls, each with what the adapter answers during it.
\<close>

datatype operation =
    OpOnReadersDiscovered "reader list"
  | OpOnUnexpectedDisconnect
  | OpConnect "string option"
  | OpDiscover
  | OpDisconnect
  | OpGetReader
  | OpAddListener string
  | OpGetPersistedReaderSerialNumber
  | OpSetPersistedReaderSerialNumber "string option"
  | OpStart
  | OpStop

fun run :: "adapter \<Rightarrow> operation \<Rightarrow> world \<Rightarrow> world" where
  "run ST (OpOnReadersDiscovered readers) w = onReadersDiscovered ST readers w"
| "run ST OpOnUnexpectedDisconnect w = onUnexpectedDisconnect ST w"
| "run ST (OpConnect serial) w = connect ST serial w"
| "run ST OpDiscover w = discover w"
| "run ST OpDisconnect w = disconnect w"
| "run ST OpGetReader w = snd (getReader ST w)"
| "run ST (OpAddListener ev) w = addListener ev w"
| "run ST OpGetPersistedReaderSerialNumber w = snd (getPersistedReaderSerialNumber w)"
| "run ST (OpSetPersistedReaderSerialNumber serial) w = setPersistedReaderSerialNumber serial w"
| "run ST OpStart w = start ST w"
| "run ST OpStop w = stop w"

fun run_all :: "(adapter \<times> operation) list \<Rightarrow> world \<Rightarrow> world" where
  "run_all [] w = w"
| "run_all ((ST, op) # rest) w = run_all rest (run ST op w)"

fun is_setPersisted :: "operation \<Rightarrow> bool" where
  "is_setPersisted (OpSetPersistedReaderSerialNumber serial) = True"
| "is_setPersisted op = False"

subsection \<open>Reading the log of effects\<close>

text \<open>The identifiers \<^verbatim>\<open>connectReader\<close> was called with, oldest first.\<close>

fun connectReader_calls :: "effect list \<Rightarrow> string list" where
  "connectReader_calls [] = []"
| "connectReader_calls (ConnectReader serial # es) = serial # connectReader_calls es"
| "connectReader_calls (e # es) = connectReader_calls es"

text \<open>The writes to and removals from the store, oldest first.\<close>

fun store_writes :: "effect list \<Rightarrow> effect list" where
  "store_writes [] = []"
| "store_writes (SetItem k v # es) = SetItem k v # store_writes es"
| "store_writes (RemoveItem k # es) = RemoveItem k # store_writes es"
| "store_writes (e # es) = store_writes es"

subsection \<open>Concrete instances\<close>

definition example_this :: "string \<Rightarrow> string option \<Rightarrow> stcs" where
  "example_this p d =
     \<lparr>policy = p, deviceType = ''chipper2X'', discoveryMode = ''bluetoothProximity'',
      desiredReader = d,
      listeners = [ReadersDiscoveredListener, DidDisconnectUnexpectedlyFromReaderListener]\<rparr>"

definition example_world :: "string \<Rightarrow> string option \<Rightarrow> world" where
  "example_world p d = \<lparr>svc = example_this p d, storage = Map.empty, trace = []\<rparr>"

text \<open>An adapter with no device connected, whose \<^verbatim>\<open>connectReader\<close> resolves.\<close>

definition idle_adapter :: adapter where
  "idle_adapter =
     \<lparr>DeviceTypeChipper2X = ''chipper2X'',
      DiscoveryMethodBluetoothProximity = ''bluetoothProximity'',
      connectedReader = None,
      connectOutcome = (\<lambda>serial. Inr \<lparr>serialNumber = serial\<rparr>)\<rparr>"

text \<open>An adapter with no device connected, whose \<^verbatim>\<open>connectReader\<close> rejects.\<close>

definition failing_adapter :: adapter where
  "failing_adapter =
     \<lparr>DeviceTypeChipper2X = ''chipper2X'',
      DiscoveryMethodBluetoothProximity = ''bluetoothProximity'',
      connectedReader = None,
      connectOutcome = (\<lambda>serial. Inl (Error ''timeout''))\<rparr>"

text \<open>An adapter connected to the device \<open>A\<close>.\<close>

definition adapter_connected_to_A :: adapter where
  "adapter_connected_to_A =
     \<lparr>DeviceTypeChipper2X = ''chipper2X'',
      DiscoveryMethodBluetoothProximity = ''bluetoothProximity'',
      connectedReader = Some \<lparr>serialNumber = ''A''\<rparr>,
      connectOutcome = (\<lambda>serial. Inr \<lparr>serialNumber = serial\<rparr>)\<rparr>"

section \<open>Properties\<close>

subsection \<open>Auxiliary facts\<close>

lemmas world_defs =
  perform_def emit_def getItem_def setItem_def removeItem_def set_desiredReader_def

lemma indexOf_ge: "- 1 \<le> indexOf xs x"
  by (induction xs) (auto simp: Let_def)

lemma indexOf_absent: "indexOf xs x = - 1 \<longleftrightarrow> x \<notin> set xs"
proof (induction xs)
  case Nil
  show ?case by simp
next
  case (Cons y ys)
  have "- 1 \<le> indexOf ys x" by (rule indexOf_ge)
  with Cons show ?case by (auto simp: Let_def)
qed

lemma truthy_Some [simp]: "truthy (Some s) \<longleftrightarrow> s \<noteq> []"
  by (simp add: truthy_def)

lemma truthy_None [simp]: "\<not> truthy None"
  by (simp add: truthy_def)

lemma connectReader_calls_append:
  "connectReader_calls (xs @ ys) = connectReader_calls xs @ connectReader_calls ys"
  by (induction xs rule: connectReader_calls.induct) simp_all

lemma store_writes_append: "store_writes (xs @ ys) = store_writes xs @ store_writes ys"
  by (induction xs rule: store_writes.induct) simp_all

text \<open>What \<^const>\<open>connect\<close> does to the instance, to the store and to the log.\<close>

lemma connect_svc:
  "svc (connect ST serial w) =
     (svc w)\<lparr>desiredReader :=
        (if truthy serial then serial
         else if truthy (desiredReader (svc w)) then desiredReader (svc w)
         else Some DesiredReaderAny)\<rparr>"
  by (simp add: connect_def getReader_def world_defs Let_def split: option.splits)

lemma connect_storage: "storage (connect ST serial w) = storage w"
  by (simp add: connect_def getReader_def world_defs Let_def split: option.splits)

lemma connect_trace:
  "trace (connect ST serial w) =
     trace w @ [Emit EventLog (PText (connecting_message serial)), GetConnectedReader] @
     (if \<exists>r. connectedReader ST = Some r \<and>
             desiredReader (svc (connect ST serial w)) = Some (serialNumber r)
      then []
      else [AbortDiscoverReaders, DisconnectReader,
            DiscoverReaders (deviceType (svc w)) (discoveryMode (svc w))])"
proof (cases "connectedReader ST")
  case None
  then show ?thesis
    by (simp add: connect_def getReader_def world_defs Let_def)
next
  case (Some r)
  then show ?thesis
    by (simp add: connect_def getReader_def world_defs Let_def
        eq_commute [of "Some (serialNumber r)"])
qed

lemma connect_connectReader_calls:
  "connectReader_calls (trace (connect ST serial w)) = connectReader_calls (trace w)"
  by (simp add: connect_trace connectReader_calls_append)

lemma connect_store_writes:
  "store_writes (trace (connect ST serial w)) = store_writes (trace w)"
  by (simp add: connect_trace store_writes_append)

text \<open>What \<^const>\<open>setPersistedReaderSerialNumber\<close> does.\<close>

lemma setPersisted_svc: "svc (setPersistedReaderSerialNumber serial w) = svc w"
  by (simp add: setPersistedReaderSerialNumber_def world_defs split: option.splits)

lemma setPersisted_trace:
  "trace (setPersistedReaderSerialNumber serial w) =
     trace w @
     [case serial of
        None \<Rightarrow> RemoveItem StorageKey
      | Some s \<Rightarrow> if s = [] then RemoveItem StorageKey else SetItem StorageKey s,
      Emit EventReaderPersisted (PSerial serial)]"
  by (simp add: setPersistedReaderSerialNumber_def world_defs split: option.splits)

lemma setPersisted_storage:
  "storage (setPersistedReaderSerialNumber serial w) =
     (storage w)(StorageKey := (if truthy serial then serial else None))"
  by (auto simp add: setPersistedReaderSerialNumber_def world_defs split: option.splits)

text \<open>The two callbacks of \<^const>\<open>onReadersDiscovered\<close>.\<close>

lemma on_connected_desiredReader:
  "desiredReader (svc (on_connected r w)) = Some (serialNumber r)"
  by (simp add: on_connected_def Let_def setPersisted_svc set_desiredReader_def)

lemma on_connected_connectReader_calls:
  "connectReader_calls (trace (on_connected r w)) = connectReader_calls (trace w)"
  by (simp add: on_connected_def Let_def setPersisted_trace set_desiredReader_def
      connectReader_calls_append split: option.splits)

lemma on_connect_failed_connectReader_calls:
  "connectReader_calls (trace (on_connect_failed ST e w)) = connectReader_calls (trace w)"
  by (simp add: on_connect_failed_def Let_def connect_connectReader_calls emit_def
      perform_def connectReader_calls_append)

text \<open>The three outcomes of the selection, lines 71 to 88.\<close>

lemma connectionPromise_found:
  assumes "desiredReader this = Some d" and "d \<in> serialNumber ` set readers"
  shows "connectionPromise this readers = Some d"
proof -
  from assms obtain r where
    "List.find (\<lambda>r. Some (serialNumber r) = desiredReader this) readers = Some r"
    by (cases "List.find (\<lambda>r. Some (serialNumber r) = desiredReader this) readers")
      (auto simp: find_None_iff)
  moreover from this have "Some (serialNumber r) = desiredReader this"
    by (auto simp: find_Some_iff)
  ultimately show ?thesis
    using assms(1) by (simp add: connectionPromise_def)
qed

lemma connectionPromise_not_found:
  assumes "desiredReader this = Some d" and "d \<notin> serialNumber ` set readers"
    and "readers \<noteq> []"
  shows "connectionPromise this readers =
     (if policy this = PolicyAuto \<or>
         (policy this = PolicyPersist \<and> \<not> truthy (desiredReader this)) \<or>
         desiredReader this = Some DesiredReaderAny
      then Some (serialNumber (hd readers)) else None)"
proof -
  from assms(1,2) have
    "List.find (\<lambda>r. Some (serialNumber r) = desiredReader this) readers = None"
    by (auto simp: find_None_iff)
  with assms(3) show ?thesis
    by (cases readers) (simp_all add: connectionPromise_def)
qed

subsection \<open>Discovery results\<close>

text \<open>
  Claim C1. Let a non-empty batch be delivered to \<^verbatim>\<open>onReadersDiscovered\<close> while
  DesiredReader is set (to a non-empty identifier \<open>d\<close>). If a device of the batch has the
  identifier \<open>d\<close>, \<^verbatim>\<open>connectReader\<close> is called once, with \<open>d\<close>. Otherwise, if the policy is
  Auto, or the policy is Persist with DesiredReader unset, or DesiredReader is Any,
  \<^verbatim>\<open>connectReader\<close> is called once, with the identifier of the first device of the batch.
  Otherwise \<^verbatim>\<open>connectReader\<close> is not called, the event persistedReaderNotFound is
  emitted with the batch, and the connect sequence is run again. In the first two cases,
  when the call resolves with a device, DesiredReader is that device's identifier.
\<close>

theorem onReadersDiscovered_target:
  assumes "readers \<noteq> []" and "desiredReader (svc w) = Some d" and "d \<noteq> []"
  shows
    "if d \<in> serialNumber ` set readers then
       connectReader_calls (trace (onReadersDiscovered ST readers w)) =
         connectReader_calls (trace w) @ [d] \<and>
       (\<forall>r. connectOutcome ST d = Inr r \<longrightarrow>
          desiredReader (svc (onReadersDiscovered ST readers w)) = Some (serialNumber r))
     else if policy (svc w) = PolicyAuto \<or>
             (policy (svc w) = PolicyPersist \<and> \<not> truthy (desiredReader (svc w))) \<or>
             desiredReader (svc w) = Some DesiredReaderAny then
       connectReader_calls (trace (onReadersDiscovered ST readers w)) =
         connectReader_calls (trace w) @ [serialNumber (hd readers)] \<and>
       (\<forall>r. connectOutcome ST (serialNumber (hd readers)) = Inr r \<longrightarrow>
          desiredReader (svc (onReadersDiscovered ST readers w)) = Some (serialNumber r))
     else
       connectReader_calls (trace (onReadersDiscovered ST readers w)) =
         connectReader_calls (trace w) \<and>
       onReadersDiscovered ST readers w =
         connect ST None
           (emit EventPersistedReaderNotFound (PReaders readers)
              (emit EventReadersDiscovered (PReaders readers) w)) \<and>
       (\<exists>rest. trace (onReadersDiscovered ST readers w) =
          trace w @
          [Emit EventReadersDiscovered (PReaders readers),
           Emit EventPersistedReaderNotFound (PReaders readers),
           Emit EventLog (PText (connecting_message None)),
           GetConnectedReader] @ rest)"
proof -
  let ?w1 = "emit EventReadersDiscovered (PReaders readers) w"
  have svc1: "svc ?w1 = svc w" and tr1: "trace ?w1 = trace w @ [Emit EventReadersDiscovered (PReaders readers)]"
    by (simp_all add: world_defs)
  have d1: "desiredReader (svc ?w1) = Some d"
    using assms(2) svc1 by simp
  have unfold: "onReadersDiscovered ST readers w =
     (case connectionPromise (svc w) readers of
        Some serial \<Rightarrow>
          (case connectOutcome ST serial of
             Inr r \<Rightarrow> on_connected r (perform (ConnectReader serial) ?w1)
           | Inl e \<Rightarrow> on_connect_failed ST e (perform (ConnectReader serial) ?w1))
      | None \<Rightarrow> connect ST None (emit EventPersistedReaderNotFound (PReaders readers) ?w1))"
    using assms d1 by (simp add: onReadersDiscovered_def Let_def svc1 split: option.split)
  have issued: "connectReader_calls (trace (onReadersDiscovered ST readers w)) =
       connectReader_calls (trace w) @ [serial] \<and>
     (\<forall>r. connectOutcome ST serial = Inr r \<longrightarrow>
        desiredReader (svc (onReadersDiscovered ST readers w)) = Some (serialNumber r))"
    if "connectionPromise (svc w) readers = Some serial" for serial
    using that
    by (cases "connectOutcome ST serial")
      (simp_all add: unfold on_connected_desiredReader on_connected_connectReader_calls
        on_connect_failed_connectReader_calls perform_def tr1 connectReader_calls_append)
  show ?thesis
  proof (cases "d \<in> serialNumber ` set readers")
    case True
    then have "connectionPromise (svc w) readers = Some d"
      using assms(2) by (rule connectionPromise_found [rotated])
    from issued [OF this] True show ?thesis by simp
  next
    case False
    note sel = connectionPromise_not_found [OF assms(2) False assms(1)]
    show ?thesis
    proof (cases "policy (svc w) = PolicyAuto \<or>
             (policy (svc w) = PolicyPersist \<and> \<not> truthy (desiredReader (svc w))) \<or>
             desiredReader (svc w) = Some DesiredReaderAny")
      case True
      with sel have "connectionPromise (svc w) readers = Some (serialNumber (hd readers))"
        by simp
      from issued [OF this] True False show ?thesis by simp
    next
      case no: False
      with sel have none: "connectionPromise (svc w) readers = None"
        by simp
      have eq: "onReadersDiscovered ST readers w =
         connect ST None (emit EventPersistedReaderNotFound (PReaders readers) ?w1)"
        by (simp add: unfold none)
      have "trace (onReadersDiscovered ST readers w) =
          trace w @
          [Emit EventReadersDiscovered (PReaders readers),
           Emit EventPersistedReaderNotFound (PReaders readers),
           Emit EventLog (PText (connecting_message None)),
           GetConnectedReader] @
          (if \<exists>r. connectedReader ST = Some r \<and>
             desiredReader (svc (onReadersDiscovered ST readers w)) = Some (serialNumber r)
           then []
           else [AbortDiscoverReaders, DisconnectReader,
                 DiscoverReaders (deviceType (svc w)) (discoveryMode (svc w))])"
        unfolding eq by (subst connect_trace) (simp add: world_defs)
      then have "\<exists>rest. trace (onReadersDiscovered ST readers w) =
          trace w @
          [Emit EventReadersDiscovered (PReaders readers),
           Emit EventPersistedReaderNotFound (PReaders readers),
           Emit EventLog (PText (connecting_message None)),
           GetConnectedReader] @ rest"
        by blast
      moreover have "connectReader_calls (trace (onReadersDiscovered ST readers w)) =
         connectReader_calls (trace w)"
        unfolding eq by (simp add: connect_connectReader_calls world_defs connectReader_calls_append)
      ultimately show ?thesis
        using False no eq by simp
    qed
  qed
qed

theorem onReadersDiscovered_target_witness:
  "connectReader_calls
     (trace (onReadersDiscovered idle_adapter
        [\<lparr>serialNumber = ''A''\<rparr>, \<lparr>serialNumber = ''B''\<rparr>]
        (example_world PolicyAuto (Some DesiredReaderAny)))) = [''A''] \<and>
   desiredReader
     (svc (onReadersDiscovered idle_adapter
        [\<lparr>serialNumber = ''A''\<rparr>, \<lparr>serialNumber = ''B''\<rparr>]
        (example_world PolicyAuto (Some DesiredReaderAny)))) = Some ''A'' \<and>
   connectReader_calls
     (trace (onReadersDiscovered idle_adapter
        [\<lparr>serialNumber = ''B''\<rparr>, \<lparr>serialNumber = ''A''\<rparr>]
        (example_world PolicyPersist (Some ''A'')))) = [''A''] \<and>
   connectReader_calls
     (trace (onReadersDiscovered idle_adapter
        [\<lparr>serialNumber = ''B''\<rparr>, \<lparr>serialNumber = ''C''\<rparr>]
        (example_world PolicyPersist (Some ''A'')))) = []"
proof -
  note ex = example_world_def example_this_def idle_adapter_def DesiredReaderAny_def
    PolicyAuto_def PolicyPersist_def
  have first: "connectReader_calls
     (trace (onReadersDiscovered idle_adapter
        [\<lparr>serialNumber = ''A''\<rparr>, \<lparr>serialNumber = ''B''\<rparr>]
        (example_world PolicyAuto (Some DesiredReaderAny)))) = [''A''] \<and>
   desiredReader
     (svc (onReadersDiscovered idle_adapter
        [\<lparr>serialNumber = ''A''\<rparr>, \<lparr>serialNumber = ''B''\<rparr>]
        (example_world PolicyAuto (Some DesiredReaderAny)))) = Some ''A''"
    using onReadersDiscovered_target
      [of "[\<lparr>serialNumber = ''A''\<rparr>, \<lparr>serialNumber = ''B''\<rparr>]"
        "example_world PolicyAuto (Some DesiredReaderAny)" DesiredReaderAny idle_adapter]
    by (simp add: ex)
  have found: "connectReader_calls
     (trace (onReadersDiscovered idle_adapter
        [\<lparr>serialNumber = ''B''\<rparr>, \<lparr>serialNumber = ''A''\<rparr>]
        (example_world PolicyPersist (Some ''A'')))) = [''A'']"
    using onReadersDiscovered_target
      [of "[\<lparr>serialNumber = ''B''\<rparr>, \<lparr>serialNumber = ''A''\<rparr>]"
        "example_world PolicyPersist (Some ''A'')" "''A''" idle_adapter]
    by (simp add: ex)
  have absent: "connectReader_calls
     (trace (onReadersDiscovered idle_adapter
        [\<lparr>serialNumber = ''B''\<rparr>, \<lparr>serialNumber = ''C''\<rparr>]
        (example_world PolicyPersist (Some ''A'')))) = []"
    using onReadersDiscovered_target
      [of "[\<lparr>serialNumber = ''B''\<rparr>, \<lparr>serialNumber = ''C''\<rparr>]"
        "example_world PolicyPersist (Some ''A'')" "''A''" idle_adapter]
    by (auto simp add: ex)
  from first found absent show ?thesis by simp
qed

subsection \<open>The connect sequence\<close>

text \<open>
  Claim C3. Every call of \<^verbatim>\<open>connect\<close> first emits its log line, fixes DesiredReader (the
  argument when one is given, else the value it had, else Any) and asks the adapter for
  the connected device. If that device has the identifier DesiredReader now holds,
  \<^verbatim>\<open>connect\<close> returns at once: no \<^verbatim>\<open>abortDiscoverReaders\<close>, \<^verbatim>\<open>disconnectReader\<close> or
  \<^verbatim>\<open>discoverReaders\<close> call is made. Otherwise it calls \<^verbatim>\<open>abortDiscoverReaders\<close>, then
  \<^verbatim>\<open>disconnectReader\<close>, then \<^verbatim>\<open>discoverReaders\<close> with the configured device type and
  discovery mode, in that order and nothing else.
\<close>

theorem connect_short_circuit_or_search:
  "desiredReader (svc (connect ST serial w)) =
     (if truthy serial then serial
      else if truthy (desiredReader (svc w)) then desiredReader (svc w)
      else Some DesiredReaderAny) \<and>
   trace (connect ST serial w) =
     trace w @ [Emit EventLog (PText (connecting_message serial)), GetConnectedReader] @
     (if \<exists>r. connectedReader ST = Some r \<and>
             desiredReader (svc (connect ST serial w)) = Some (serialNumber r)
      then []
      else [AbortDiscoverReaders, DisconnectReader,
            DiscoverReaders (deviceType (svc w)) (discoveryMode (svc w))])"
  by (simp add: connect_svc connect_trace)

theorem connect_short_circuit_or_search_witness:
  "trace (connect adapter_connected_to_A None (example_world PolicyAuto (Some ''A''))) =
     [Emit EventLog (PText (connecting_message None)), GetConnectedReader] \<and>
   trace (connect adapter_connected_to_A (Some ''B'') (example_world PolicyAuto (Some ''A''))) =
     [Emit EventLog (PText (connecting_message (Some ''B''))), GetConnectedReader,
      AbortDiscoverReaders, DisconnectReader,
      DiscoverReaders ''chipper2X'' ''bluetoothProximity''] \<and>
   trace (connect idle_adapter None (example_world PolicyManual None)) =
     [Emit EventLog (PText (connecting_message None)), GetConnectedReader,
      AbortDiscoverReaders, DisconnectReader,
      DiscoverReaders ''chipper2X'' ''bluetoothProximity'']"
  using connect_short_circuit_or_search
      [of adapter_connected_to_A None "example_world PolicyAuto (Some ''A'')"]
    connect_short_circuit_or_search
      [of adapter_connected_to_A "Some ''B''" "example_world PolicyAuto (Some ''A'')"]
    connect_short_circuit_or_search
      [of idle_adapter None "example_world PolicyManual None"]
  by (simp add: example_world_def example_this_def adapter_connected_to_A_def
      idle_adapter_def)

text \<open>
  Claim C4. When the \<^verbatim>\<open>connectReader\<close> call that \<^verbatim>\<open>onReadersDiscovered\<close> issued is
  rejected with \<open>e\<close>, the event connectionError is emitted with \<open>e\<close>; after it the connect
  sequence is run if the policy is not Manual, and nothing more happens if it is.
\<close>

theorem connect_failure_reported_and_retried:
  assumes "readers \<noteq> []" and "truthy (desiredReader (svc w))"
    and "connectionPromise (svc w) readers = Some serial"
    and "connectOutcome ST serial = Inl e"
  shows
    "onReadersDiscovered ST readers w =
       (if policy (svc w) \<noteq> PolicyManual then connect ST None else id)
         (emit EventConnectionError (PError e)
            (perform (ConnectReader serial)
               (emit EventReadersDiscovered (PReaders readers) w))) \<and>
     (\<exists>rest. trace (onReadersDiscovered ST readers w) =
        trace w @
        [Emit EventReadersDiscovered (PReaders readers), ConnectReader serial,
         Emit EventConnectionError (PError e)] @
        (if policy (svc w) \<noteq> PolicyManual
         then Emit EventLog (PText (connecting_message None)) # GetConnectedReader # rest
         else []))"
proof -
  let ?w2 = "emit EventConnectionError (PError e)
     (perform (ConnectReader serial) (emit EventReadersDiscovered (PReaders readers) w))"
  have svc2: "svc ?w2 = svc w"
    and tr2: "trace ?w2 = trace w @
        [Emit EventReadersDiscovered (PReaders readers), ConnectReader serial,
         Emit EventConnectionError (PError e)]"
    by (simp_all add: world_defs)
  have eq: "onReadersDiscovered ST readers w =
       (if policy (svc w) \<noteq> PolicyManual then connect ST None else id) ?w2"
    using assms
    by (simp add: onReadersDiscovered_def on_connect_failed_def Let_def world_defs)
  show ?thesis
  proof (cases "policy (svc w) = PolicyManual")
    case True
    with eq tr2 show ?thesis by simp
  next
    case False
    have "trace (connect ST None ?w2) =
       trace ?w2 @ [Emit EventLog (PText (connecting_message None)), GetConnectedReader] @
       (if \<exists>r. connectedReader ST = Some r \<and>
             desiredReader (svc (connect ST None ?w2)) = Some (serialNumber r)
        then []
        else [AbortDiscoverReaders, DisconnectReader,
              DiscoverReaders (deviceType (svc ?w2)) (discoveryMode (svc ?w2))])"
      by (rule connect_trace)
    with False eq tr2 show ?thesis by simp
  qed
qed

theorem connect_failure_reported_and_retried_witness:
  "trace (onReadersDiscovered failing_adapter [\<lparr>serialNumber = ''B''\<rparr>]
            (example_world PolicyManual (Some ''B''))) =
     [Emit EventReadersDiscovered (PReaders [\<lparr>serialNumber = ''B''\<rparr>]),
      ConnectReader ''B'',
      Emit EventConnectionError (PError (Error ''timeout''))] \<and>
   take 5 (trace (onReadersDiscovered failing_adapter [\<lparr>serialNumber = ''B''\<rparr>]
            (example_world PolicyPersist (Some ''B'')))) =
     [Emit EventReadersDiscovered (PReaders [\<lparr>serialNumber = ''B''\<rparr>]),
      ConnectReader ''B'',
      Emit EventConnectionError (PError (Error ''timeout'')),
      Emit EventLog (PText (connecting_message None)),
      GetConnectedReader]"
proof -
  note ex = example_world_def example_this_def failing_adapter_def connectionPromise_def
    PolicyManual_def PolicyPersist_def
  have manual: "trace (onReadersDiscovered failing_adapter [\<lparr>serialNumber = ''B''\<rparr>]
            (example_world PolicyManual (Some ''B''))) =
     [Emit EventReadersDiscovered (PReaders [\<lparr>serialNumber = ''B''\<rparr>]),
      ConnectReader ''B'',
      Emit EventConnectionError (PError (Error ''timeout''))]"
    using connect_failure_reported_and_retried
      [of "[\<lparr>serialNumber = ''B''\<rparr>]" "example_world PolicyManual (Some ''B'')" "''B''"
        failing_adapter "Error ''timeout''"]
    by (auto simp add: ex)
  have persist: "take 5 (trace (onReadersDiscovered failing_adapter [\<lparr>serialNumber = ''B''\<rparr>]
            (example_world PolicyPersist (Some ''B'')))) =
     [Emit EventReadersDiscovered (PReaders [\<lparr>serialNumber = ''B''\<rparr>]),
      ConnectReader ''B'',
      Emit EventConnectionError (PError (Error ''timeout'')),
      Emit EventLog (PText (connecting_message None)),
      GetConnectedReader]"
    using connect_failure_reported_and_retried
      [of "[\<lparr>serialNumber = ''B''\<rparr>]" "example_world PolicyPersist (Some ''B'')" "''B''"
        failing_adapter "Error ''timeout''"]
    by (auto simp add: ex)
  from manual persist show ?thesis by simp
qed

text \<open>
  Claim C6. The handler of the adapter's unexpected-disconnect notification runs the
  connect sequence, with no argument, whatever the state of the instance: the log line
  and the query for the connected device always follow, and the policy has no influence
  on the effects.
\<close>

theorem onUnexpectedDisconnect_always_connects:
  "onUnexpectedDisconnect ST w = connect ST None w \<and>
   (\<exists>rest. trace (onUnexpectedDisconnect ST w) =
      trace w @ Emit EventLog (PText (connecting_message None)) # GetConnectedReader # rest) \<and>
   trace (onUnexpectedDisconnect ST (w\<lparr>svc := (svc w)\<lparr>policy := p\<rparr>\<rparr>)) =
     trace (onUnexpectedDisconnect ST w)"
proof -
  have "\<exists>rest. trace (connect ST None w) =
      trace w @ Emit EventLog (PText (connecting_message None)) # GetConnectedReader # rest"
    by (subst connect_trace) simp
  moreover have "trace (connect ST None (w\<lparr>svc := (svc w)\<lparr>policy := p\<rparr>\<rparr>)) =
     trace (connect ST None w)"
    by (simp add: connect_trace connect_svc)
  ultimately show ?thesis
    by (simp add: onUnexpectedDisconnect_def)
qed

theorem onUnexpectedDisconnect_always_connects_witness:
  "trace (onUnexpectedDisconnect idle_adapter (example_world PolicyManual None)) =
     [Emit EventLog (PText (connecting_message None)), GetConnectedReader,
      AbortDiscoverReaders, DisconnectReader,
      DiscoverReaders ''chipper2X'' ''bluetoothProximity'']"
  using onUnexpectedDisconnect_always_connects
      [of idle_adapter "example_world PolicyManual None" PolicyManual]
    connect_trace [of idle_adapter None "example_world PolicyManual None"]
  by (simp add: connect_svc example_world_def example_this_def idle_adapter_def)

subsection \<open>Disconnecting\<close>

text \<open>
  Claim C5. Under the policies Persist and PersistManual, \<^verbatim>\<open>disconnect\<close> removes the
  persisted identifier from the store (emitting readerPersisted with no identifier) and
  resets DesiredReader to unset, and only then calls the adapter's \<^verbatim>\<open>disconnectReader\<close>.
  Under the policies Auto and Manual it calls \<^verbatim>\<open>disconnectReader\<close> and does nothing else:
  DesiredReader and the store stay as they were.
\<close>

theorem disconnect_clears_under_persisting_policies:
  "(policy (svc w) = PolicyPersist \<or> policy (svc w) = PolicyPersistManual \<longrightarrow>
      disconnect w =
        perform DisconnectReader
          (w\<lparr>svc := (svc w)\<lparr>desiredReader := None\<rparr>,
             storage := (storage w)(StorageKey := None),
             trace := trace w @
               [RemoveItem StorageKey, Emit EventReaderPersisted (PSerial None)]\<rparr>)) \<and>
   (policy (svc w) = PolicyAuto \<or> policy (svc w) = PolicyManual \<longrightarrow>
      disconnect w = perform DisconnectReader w \<and>
      desiredReader (svc (disconnect w)) = desiredReader (svc w) \<and>
      storage (disconnect w) = storage w \<and>
      trace (disconnect w) = trace w @ [DisconnectReader])"
  by (auto simp add: disconnect_def setPersistedReaderSerialNumber_def world_defs Let_def
      PolicyAuto_def PolicyManual_def PolicyPersist_def PolicyPersistManual_def)

theorem disconnect_clears_under_persisting_policies_witness:
  "desiredReader (svc (disconnect
      ((example_world PolicyPersist (Some ''A''))\<lparr>storage := [StorageKey \<mapsto> ''A'']\<rparr>))) = None \<and>
   storage (disconnect
      ((example_world PolicyPersist (Some ''A''))\<lparr>storage := [StorageKey \<mapsto> ''A'']\<rparr>))
      StorageKey = None \<and>
   trace (disconnect
      ((example_world PolicyPersist (Some ''A''))\<lparr>storage := [StorageKey \<mapsto> ''A'']\<rparr>)) =
     [RemoveItem StorageKey, Emit EventReaderPersisted (PSerial None), DisconnectReader] \<and>
   desiredReader (svc (disconnect (example_world PolicyAuto (Some ''A'')))) = Some ''A'' \<and>
   trace (disconnect (example_world PolicyAuto (Some ''A''))) = [DisconnectReader]"
  using disconnect_clears_under_persisting_policies
      [of "(example_world PolicyPersist (Some ''A''))\<lparr>storage := [StorageKey \<mapsto> ''A'']\<rparr>"]
    disconnect_clears_under_persisting_policies [of "example_world PolicyAuto (Some ''A'')"]
  by (simp add: example_world_def example_this_def perform_def)

subsection \<open>Construction\<close>

text \<open>
  Claim C8. For a policy that is none of the four values Auto, Persist, Manual and
  PersistManual, the constructor throws the configuration error, and it has performed no
  effect when it does: no call of the adapter, neither of the two subscriptions.
\<close>

theorem constructor_rejects_unknown_policy:
  assumes "opt_policy opts \<notin> {PolicyAuto, PolicyPersist, PolicyManual, PolicyPersistManual}"
  shows "constructor ST opts = (Inl (Error (invalid_policy_message (opt_policy opts))), [])"
proof -
  from assms have "opt_policy opts \<notin> set Policies"
    by (simp add: Policies_def)
  then have "indexOf Policies (opt_policy opts) = - 1"
    by (simp add: indexOf_absent)
  then show ?thesis
    by (simp add: constructor_def Let_def)
qed

theorem constructor_rejects_unknown_policy_witness:
  "constructor idle_adapter
     \<lparr>opt_policy = ''automatic'', opt_deviceType = None, opt_discoveryMode = None\<rparr> =
   (Inl (Error (invalid_policy_message ''automatic'')), [])"
  using constructor_rejects_unknown_policy
    [of "\<lparr>opt_policy = ''automatic'', opt_deviceType = None, opt_discoveryMode = None\<rparr>"
      idle_adapter]
  by (simp add: PolicyAuto_def PolicyPersist_def PolicyManual_def PolicyPersistManual_def)

subsection \<open>The persisted identifier\<close>

text \<open>
  Claim C9. After \<^verbatim>\<open>setPersistedReaderSerialNumber(id)\<close> with a non-empty \<open>id\<close>,
  \<^verbatim>\<open>getPersistedReaderSerialNumber()\<close> returns \<open>id\<close>. Called with no identifier or with the
  empty string, \<^verbatim>\<open>setPersistedReaderSerialNumber\<close> removes the stored value, and
  \<^verbatim>\<open>getPersistedReaderSerialNumber()\<close> then returns none. In each case one store call is
  made and the event readerPersisted is emitted with the argument.
\<close>

theorem persisted_serial_round_trip:
  "(serial \<noteq> [] \<longrightarrow>
      fst (getPersistedReaderSerialNumber
             (setPersistedReaderSerialNumber (Some serial) w)) = Some serial \<and>
      trace (setPersistedReaderSerialNumber (Some serial) w) =
        trace w @ [SetItem StorageKey serial,
                   Emit EventReaderPersisted (PSerial (Some serial))]) \<and>
   (v = None \<or> v = Some [] \<longrightarrow>
      fst (getPersistedReaderSerialNumber (setPersistedReaderSerialNumber v w)) = None \<and>
      storage (setPersistedReaderSerialNumber v w) = (storage w)(StorageKey := None) \<and>
      trace (setPersistedReaderSerialNumber v w) =
        trace w @ [RemoveItem StorageKey, Emit EventReaderPersisted (PSerial v)])"
  by (auto simp add: getPersistedReaderSerialNumber_def setPersistedReaderSerialNumber_def
      world_defs)

theorem persisted_serial_round_trip_witness:
  "fst (getPersistedReaderSerialNumber
          (setPersistedReaderSerialNumber (Some ''A'') (example_world PolicyManual None))) =
     Some ''A'' \<and>
   fst (getPersistedReaderSerialNumber
          (setPersistedReaderSerialNumber None
             (setPersistedReaderSerialNumber (Some ''A'')
                (example_world PolicyManual None)))) = None \<and>
   trace (setPersistedReaderSerialNumber (Some [])
            (setPersistedReaderSerialNumber (Some ''A'')
               (example_world PolicyManual None))) =
     [SetItem StorageKey ''A'', Emit EventReaderPersisted (PSerial (Some ''A'')),
      RemoveItem StorageKey, Emit EventReaderPersisted (PSerial (Some []))]"
  using persisted_serial_round_trip
      [of "''A''" "example_world PolicyManual None" None]
    persisted_serial_round_trip
      [of "''A''" "setPersistedReaderSerialNumber (Some ''A'')
         (example_world PolicyManual None)" None]
    persisted_serial_round_trip
      [of "''A''" "setPersistedReaderSerialNumber (Some ''A'')
         (example_world PolicyManual None)" "Some []"]
  by (simp add: example_world_def)

subsection \<open>The disjunct that is never reached\<close>

text \<open>
  Claim C10. \<^verbatim>\<open>onReadersDiscovered\<close> returns before the selection whenever DesiredReader
  is unset, so the disjunct "the policy is Persist and DesiredReader is unset" of the
  selection condition is never true where it is evaluated: for every adapter, batch and
  world, \<^verbatim>\<open>onReadersDiscovered\<close> equals its variant without that disjunct.
\<close>

theorem unset_disjunct_unreachable:
  "onReadersDiscovered ST readers w = onReadersDiscovered_without_unset_disjunct ST readers w"
proof (cases "truthy (desiredReader (svc w))")
  case True
  then have "connectionPromise (svc w) readers =
      connectionPromise_without_unset_disjunct (svc w) readers"
    by (simp add: connectionPromise_def connectionPromise_without_unset_disjunct_def
        split: option.split list.split)
  then show ?thesis
    by (simp add: onReadersDiscovered_def onReadersDiscovered_without_unset_disjunct_def
        Let_def world_defs)
next
  case False
  then show ?thesis
    by (simp add: onReadersDiscovered_def onReadersDiscovered_without_unset_disjunct_def
        Let_def world_defs)
qed

text \<open>
  The selection alone does depend on the disjunct; the early return of
  \<^verbatim>\<open>onReadersDiscovered\<close> is what hides it.
\<close>

lemma connectionPromise_depends_on_unset_disjunct:
  "connectionPromise (example_this PolicyPersist None) [\<lparr>serialNumber = ''B''\<rparr>] = Some ''B'' \<and>
   connectionPromise_without_unset_disjunct (example_this PolicyPersist None)
     [\<lparr>serialNumber = ''B''\<rparr>] = None"
  by (simp add: connectionPromise_def connectionPromise_without_unset_disjunct_def
      example_this_def PolicyPersist_def PolicyAuto_def)

theorem unset_disjunct_unreachable_witness:
  "trace (onReadersDiscovered_without_unset_disjunct idle_adapter [\<lparr>serialNumber = ''B''\<rparr>]
            (example_world PolicyPersist None)) =
     [Emit EventReadersDiscovered (PReaders [\<lparr>serialNumber = ''B''\<rparr>])] \<and>
   trace (onReadersDiscovered idle_adapter [\<lparr>serialNumber = ''B''\<rparr>]
            (example_world PolicyPersist None)) =
     [Emit EventReadersDiscovered (PReaders [\<lparr>serialNumber = ''B''\<rparr>])]"
  using unset_disjunct_unreachable
    [of idle_adapter "[\<lparr>serialNumber = ''B''\<rparr>]" "example_world PolicyPersist None"]
  by (simp add: onReadersDiscovered_without_unset_disjunct_def example_world_def
      example_this_def world_defs Let_def)

subsection \<open>Startup\<close>

text \<open>
  Claim C2. \<^verbatim>\<open>start\<close> is decided by the policy. Under Auto it runs the connect sequence
  with no identifier. Under Persist it reads the persisted identifier and runs the connect
  sequence with what it read, found or not; when nothing was found the call has no
  identifier, its log line names the target \<open>any\<close>, and DesiredReader, unset at
  start-up, becomes Any. Under PersistManual it reads the persisted identifier and runs
  the connect sequence with it if and only if there is one; otherwise the read is all it
  does. Under Manual it does nothing.
\<close>

theorem start_by_policy:
  "(policy (svc w) = PolicyAuto \<longrightarrow> start ST w = connect ST None w) \<and>
   (policy (svc w) = PolicyPersist \<longrightarrow>
      start ST w = connect ST (storage w StorageKey) (perform (GetItem StorageKey) w) \<and>
      (\<not> truthy (storage w StorageKey) \<longrightarrow>
         (\<exists>rest. trace (start ST w) =
            trace w @ GetItem StorageKey #
              Emit EventLog (PText (connecting_message None)) # GetConnectedReader # rest) \<and>
         (\<not> truthy (desiredReader (svc w)) \<longrightarrow>
            desiredReader (svc (start ST w)) = Some DesiredReaderAny)) \<and>
      (truthy (storage w StorageKey) \<longrightarrow>
         desiredReader (svc (start ST w)) = storage w StorageKey)) \<and>
   (policy (svc w) = PolicyPersistManual \<longrightarrow>
      start ST w =
        (if truthy (storage w StorageKey) then connect ST (storage w StorageKey) else id)
          (perform (GetItem StorageKey) w)) \<and>
   (policy (svc w) = PolicyManual \<longrightarrow> start ST w = w)"
proof -
  have distinct: "PolicyPersist \<noteq> PolicyAuto" "PolicyPersistManual \<noteq> PolicyAuto"
    "PolicyManual \<noteq> PolicyAuto" "PolicyManual \<noteq> PolicyPersist"
    "PolicyManual \<noteq> PolicyPersistManual" "PolicyPersistManual \<noteq> PolicyPersist"
    by (simp_all add: PolicyAuto_def PolicyPersist_def PolicyManual_def
        PolicyPersistManual_def)
  have read: "getPersistedReaderSerialNumber w =
      (storage w StorageKey, perform (GetItem StorageKey) w)"
    by (simp add: getPersistedReaderSerialNumber_def getItem_def)
  have same: "svc (perform (GetItem StorageKey) w) = svc w"
    and tr: "trace (perform (GetItem StorageKey) w) = trace w @ [GetItem StorageKey]"
    by (simp_all add: perform_def)
  have message: "connecting_message (storage w StorageKey) = connecting_message None"
    if "\<not> truthy (storage w StorageKey)"
    using that
    by (cases "storage w StorageKey") (simp_all add: connecting_message_def or_else_def)
  have logged: "\<exists>rest. trace (connect ST (storage w StorageKey)
        (perform (GetItem StorageKey) w)) =
      trace w @ GetItem StorageKey #
        Emit EventLog (PText (connecting_message None)) # GetConnectedReader # rest"
    if "\<not> truthy (storage w StorageKey)"
    by (subst connect_trace) (simp add: tr message [OF that])
  show ?thesis
    using distinct logged by (simp add: start_def read same connect_svc)
qed

theorem start_by_policy_witness:
  "trace (start idle_adapter
      ((example_world PolicyPersistManual None)\<lparr>storage := [StorageKey \<mapsto> ''X'']\<rparr>)) =
     [GetItem StorageKey, Emit EventLog (PText (connecting_message (Some ''X''))),
      GetConnectedReader, AbortDiscoverReaders, DisconnectReader,
      DiscoverReaders ''chipper2X'' ''bluetoothProximity''] \<and>
   desiredReader (svc (start idle_adapter
      ((example_world PolicyPersistManual None)\<lparr>storage := [StorageKey \<mapsto> ''X'']\<rparr>))) =
     Some ''X'' \<and>
   trace (start idle_adapter (example_world PolicyPersistManual None)) =
     [GetItem StorageKey] \<and>
   desiredReader (svc (start idle_adapter (example_world PolicyPersist None))) =
     Some DesiredReaderAny \<and>
   take 3 (trace (start idle_adapter (example_world PolicyPersist None))) =
     [GetItem StorageKey, Emit EventLog (PText (connecting_message None)),
      GetConnectedReader] \<and>
   desiredReader (svc (start idle_adapter (example_world PolicyAuto None))) =
     Some DesiredReaderAny \<and>
   start idle_adapter (example_world PolicyManual None) = example_world PolicyManual None"
proof -
  note ex = example_world_def example_this_def idle_adapter_def perform_def connect_svc
    connect_trace PolicyAuto_def PolicyPersist_def PolicyManual_def PolicyPersistManual_def
  have found: "trace (start idle_adapter
      ((example_world PolicyPersistManual None)\<lparr>storage := [StorageKey \<mapsto> ''X'']\<rparr>)) =
     [GetItem StorageKey, Emit EventLog (PText (connecting_message (Some ''X''))),
      GetConnectedReader, AbortDiscoverReaders, DisconnectReader,
      DiscoverReaders ''chipper2X'' ''bluetoothProximity''] \<and>
   desiredReader (svc (start idle_adapter
      ((example_world PolicyPersistManual None)\<lparr>storage := [StorageKey \<mapsto> ''X'']\<rparr>))) =
     Some ''X''"
    using start_by_policy
      [of "(example_world PolicyPersistManual None)\<lparr>storage := [StorageKey \<mapsto> ''X'']\<rparr>"
        idle_adapter]
    by (simp add: ex)
  have none: "trace (start idle_adapter (example_world PolicyPersistManual None)) =
     [GetItem StorageKey]"
    using start_by_policy [of "example_world PolicyPersistManual None" idle_adapter]
    by (simp add: ex)
  have persist: "desiredReader (svc (start idle_adapter (example_world PolicyPersist None))) =
     Some DesiredReaderAny \<and>
   take 3 (trace (start idle_adapter (example_world PolicyPersist None))) =
     [GetItem StorageKey, Emit EventLog (PText (connecting_message None)),
      GetConnectedReader]"
    using start_by_policy [of "example_world PolicyPersist None" idle_adapter]
    by (auto simp add: example_world_def example_this_def PolicyPersist_def)
  have auto: "desiredReader (svc (start idle_adapter (example_world PolicyAuto None))) =
     Some DesiredReaderAny"
    using start_by_policy [of "example_world PolicyAuto None" idle_adapter]
    by (simp add: ex)
  have manual: "start idle_adapter (example_world PolicyManual None) =
     example_world PolicyManual None"
    using start_by_policy [of "example_world PolicyManual None" idle_adapter]
    by (simp add: ex)
  from found none persist auto manual show ?thesis by simp
qed

subsection \<open>Who writes the persisted identifier\<close>

text \<open>No entry point changes the policy.\<close>

lemma on_connected_policy: "policy (svc (on_connected r w)) = policy (svc w)"
  by (simp add: on_connected_def Let_def setPersisted_svc set_desiredReader_def)

lemma on_connect_failed_policy: "policy (svc (on_connect_failed ST e w)) = policy (svc w)"
  by (simp add: on_connect_failed_def Let_def connect_svc world_defs)

lemma onReadersDiscovered_policy:
  "policy (svc (onReadersDiscovered ST readers w)) = policy (svc w)"
  by (simp add: onReadersDiscovered_def Let_def connect_svc on_connected_policy
      on_connect_failed_policy world_defs split: option.split sum.split)

lemma stop_unfold:
  "fold (\<lambda>l. perform (RemoveListener l)) ls w = w\<lparr>trace := trace w @ map RemoveListener ls\<rparr>"
  by (induction ls arbitrary: w) (simp_all add: perform_def)

lemma store_writes_RemoveListener: "store_writes (map RemoveListener ls) = []"
  by (induction ls) simp_all

lemma run_policy: "policy (svc (run ST op w)) = policy (svc w)"
proof (cases op)
  case (OpOnReadersDiscovered readers)
  then show ?thesis by (simp add: onReadersDiscovered_policy)
next
  case OpDisconnect
  then show ?thesis by (simp add: disconnect_def Let_def setPersisted_svc world_defs)
next
  case OpStart
  then show ?thesis
    by (simp add: start_def getPersistedReaderSerialNumber_def connect_svc world_defs)
next
  case OpStop
  then show ?thesis by (simp add: stop_def Let_def stop_unfold perform_def)
qed (simp_all add: onUnexpectedDisconnect_def connect_svc discover_def getReader_def
    addListener_def getPersistedReaderSerialNumber_def setPersisted_svc world_defs Let_def)

text \<open>
  Under a policy that is neither Persist nor PersistManual, an entry point other than
  \<^verbatim>\<open>setPersistedReaderSerialNumber\<close> leaves the store as it is.
\<close>

lemma onReadersDiscovered_store:
  assumes "policy (svc w) \<noteq> PolicyPersist" and "policy (svc w) \<noteq> PolicyPersistManual"
  shows "storage (onReadersDiscovered ST readers w) = storage w \<and>
    store_writes (trace (onReadersDiscovered ST readers w)) = store_writes (trace w)"
  using assms
  by (simp add: onReadersDiscovered_def on_connected_def on_connect_failed_def Let_def
      connect_storage connect_store_writes store_writes_append world_defs
      split: option.split sum.split)

lemma run_store:
  assumes "policy (svc w) \<noteq> PolicyPersist" and "policy (svc w) \<noteq> PolicyPersistManual"
    and "\<not> is_setPersisted op"
  shows "storage (run ST op w) = storage w \<and>
    store_writes (trace (run ST op w)) = store_writes (trace w)"
proof (cases op)
  case (OpOnReadersDiscovered readers)
  with assms show ?thesis by (simp add: onReadersDiscovered_store)
next
  case OpDisconnect
  with assms show ?thesis
    by (simp add: disconnect_def Let_def store_writes_append perform_def)
next
  case OpStart
  with assms show ?thesis
    by (simp add: start_def connect_storage connect_store_writes)
next
  case OpStop
  then show ?thesis
    by (simp add: stop_def Let_def stop_unfold perform_def store_writes_append
        store_writes_RemoveListener)
next
  case (OpSetPersistedReaderSerialNumber serial)
  with assms show ?thesis by simp
qed (simp_all add: onUnexpectedDisconnect_def connect_storage connect_store_writes
    discover_def getReader_def addListener_def getPersistedReaderSerialNumber_def
    store_writes_append world_defs Let_def)

lemma run_all_store:
  assumes "policy (svc w) \<noteq> PolicyPersist" and "policy (svc w) \<noteq> PolicyPersistManual"
    and "\<forall>(ST, op) \<in> set steps. \<not> is_setPersisted op"
  shows "storage (run_all steps w) = storage w \<and>
    store_writes (trace (run_all steps w)) = store_writes (trace w)"
  using assms
proof (induction steps arbitrary: w)
  case Nil
  show ?case by simp
next
  case (Cons step steps)
  obtain ST op where step: "step = (ST, op)"
    by (cases step)
  from Cons.prems(3) step have op: "\<not> is_setPersisted op"
    and rest: "\<forall>(ST, op) \<in> set steps. \<not> is_setPersisted op"
    by simp_all
  have "storage (run_all steps (run ST op w)) = storage (run ST op w) \<and>
    store_writes (trace (run_all steps (run ST op w))) = store_writes (trace (run ST op w))"
    using Cons.prems(1,2) rest by (intro Cons.IH) (simp_all add: run_policy)
  with run_store [OF Cons.prems(1,2) op, of ST] step show ?case
    by simp
qed

text \<open>
  Claim C7, as the code has it. The constructor makes no store call. In any run of the
  service under a policy that is neither Persist nor PersistManual (so under Auto and
  under Manual), as long as \<^verbatim>\<open>setPersistedReaderSerialNumber\<close> is not called directly, the
  store keeps its content and no \<^verbatim>\<open>setItem\<close> or \<^verbatim>\<open>removeItem\<close> is issued. The public
  method \<^verbatim>\<open>setPersistedReaderSerialNumber\<close> itself writes or removes the key under every
  policy.
\<close>

theorem store_written_only_under_persisting_policies:
  assumes "policy (svc w) \<noteq> PolicyPersist" and "policy (svc w) \<noteq> PolicyPersistManual"
    and "\<forall>(ST, op) \<in> set steps. \<not> is_setPersisted op"
  shows "store_writes (snd (constructor ST0 opts)) = [] \<and>
    storage (run_all steps w) = storage w \<and>
    store_writes (trace (run_all steps w)) = store_writes (trace w) \<and>
    storage (run ST (OpSetPersistedReaderSerialNumber serial) w) StorageKey =
      (if truthy serial then serial else None) \<and>
    length (store_writes (trace (run ST (OpSetPersistedReaderSerialNumber serial) w))) =
      Suc (length (store_writes (trace w)))"
proof -
  have "store_writes (snd (constructor ST0 opts)) = []"
    by (simp add: constructor_def Let_def)
  moreover have "length (store_writes (trace (setPersistedReaderSerialNumber serial w))) =
      Suc (length (store_writes (trace w)))"
    by (simp add: setPersisted_trace store_writes_append split: option.split)
  ultimately show ?thesis
    using run_all_store [OF assms] by (simp add: setPersisted_storage)
qed

theorem store_written_only_under_persisting_policies_witness:
  "storage
     (run_all
        [(idle_adapter, OpStart), (idle_adapter, OpConnect (Some ''A'')),
         (idle_adapter, OpOnReadersDiscovered [\<lparr>serialNumber = ''A''\<rparr>]),
         (failing_adapter, OpOnReadersDiscovered [\<lparr>serialNumber = ''A''\<rparr>]),
         (idle_adapter, OpOnUnexpectedDisconnect), (idle_adapter, OpDisconnect),
         (idle_adapter, OpStop)]
        (example_world PolicyAuto None)) = Map.empty \<and>
   store_writes
     (trace
        (run_all
           [(idle_adapter, OpStart), (idle_adapter, OpConnect (Some ''A'')),
            (idle_adapter, OpOnReadersDiscovered [\<lparr>serialNumber = ''A''\<rparr>]),
            (failing_adapter, OpOnReadersDiscovered [\<lparr>serialNumber = ''A''\<rparr>]),
            (idle_adapter, OpOnUnexpectedDisconnect), (idle_adapter, OpDisconnect),
            (idle_adapter, OpStop)]
           (example_world PolicyAuto None))) = []"
  using store_written_only_under_persisting_policies
    [of "example_world PolicyAuto None"
      "[(idle_adapter, OpStart), (idle_adapter, OpConnect (Some ''A'')),
        (idle_adapter, OpOnReadersDiscovered [\<lparr>serialNumber = ''A''\<rparr>]),
        (failing_adapter, OpOnReadersDiscovered [\<lparr>serialNumber = ''A''\<rparr>]),
        (idle_adapter, OpOnUnexpectedDisconnect), (idle_adapter, OpDisconnect),
        (idle_adapter, OpStop)]"]
  by (simp add: example_world_def example_this_def PolicyAuto_def PolicyPersist_def
      PolicyPersistManual_def)

text \<open>
  The claim as stated lets no operation touch the key under Auto or Manual. Under Auto,
  \<^verbatim>\<open>setPersistedReaderSerialNumber("A")\<close> writes it and
  \<^verbatim>\<open>setPersistedReaderSerialNumber(null)\<close> removes it again.
\<close>

theorem auto_policy_store_write_counterexample:
  "policy (svc (example_world PolicyAuto None)) = PolicyAuto \<and>
   storage (example_world PolicyAuto None) StorageKey = None \<and>
   storage (run idle_adapter (OpSetPersistedReaderSerialNumber (Some ''A''))
              (example_world PolicyAuto None)) StorageKey = Some ''A'' \<and>
   trace (run_all
            [(idle_adapter, OpSetPersistedReaderSerialNumber (Some ''A'')),
             (idle_adapter, OpSetPersistedReaderSerialNumber None)]
            (example_world PolicyAuto None)) =
     [SetItem StorageKey ''A'', Emit EventReaderPersisted (PSerial (Some ''A'')),
      RemoveItem StorageKey, Emit EventReaderPersisted (PSerial None)]"
  by (simp add: setPersistedReaderSerialNumber_def world_defs example_world_def
      example_this_def)

end
